theory Spec2Isabelle
  imports Main "HOL-Library.Word" "HOL-Library.AList"
begin

section \<open>neddns: an authoritative DNS server whose zones live in an object store\<close>

text \<open>
  A shallow embedding of \<^verbatim>\<open>neddns.go\<close>. The functions of the program keep their names.
  What the program takes from its libraries (the DNS library's messages, its zone parser
  and its handler registry, the S3 client, the clock) appears as data and as parameters:
  \<^item> a Go \<^verbatim>\<open>error\<close> is the text of its message, and \<^verbatim>\<open>nil\<close> is \<open>None\<close>;
  \<^item> a \<^verbatim>\<open>time.Time\<close> is an instant in nanoseconds, a \<^verbatim>\<open>time.Duration\<close> a number of
    nanoseconds;
  \<^item> a run-time panic (a failed type assertion, an index out of range, a method called
    on a nil value) is a result of its own, never an unspecified value;
  \<^item> \<^verbatim>\<open>log.Fatal\<close> ends the process: the model returns the state the process is in
    at that moment.
  The statsd counters and the output of \<^verbatim>\<open>c.debug\<close> are left out: they change no result.
\<close>

subsection \<open>Records of the DNS library\<close>

type_synonym error = string

record RR_Header =
  Name :: string
  Rrtype :: "16 word"
  Class :: "16 word"
  Ttl :: "32 word"

text \<open>
  \<^verbatim>\<open>dns.RR\<close> is an interface; its values are pointers to one struct per record type.
  The constructor is the Go type of the value (what a type assertion tests), the header's
  \<open>Rrtype\<close> is a field beside it.
\<close>

datatype RR =
    A RR_Header "8 word list"
  | CNAME RR_Header string
  | TXT RR_Header "string list"
  | RR_other RR_Header string

fun Header :: "RR \<Rightarrow> RR_Header" where
  "Header (A h a) = h"
| "Header (CNAME h t) = h"
| "Header (TXT h ts) = h"
| "Header (RR_other h d) = h"

record Question =
  Q_Name :: string
  Qtype :: "16 word"
  Qclass :: "16 word"

record Msg =
  Id :: "16 word"
  Response :: bool
  Authoritative :: bool
  RecursionDesired :: bool
  Rcode :: int
  Question :: "Question list"
  Answer :: "RR list"
  Extra :: "RR list"

definition TypeA :: "16 word" where "TypeA = 1"
definition TypeCNAME :: "16 word" where "TypeCNAME = 5"
definition TypeTXT :: "16 word" where "TypeTXT = 16"
definition TypeANY :: "16 word" where "TypeANY = 255"
definition ClassINET :: "16 word" where "ClassINET = 1"
definition RcodeSuccess :: int where "RcodeSuccess = 0"
definition RcodeNameError :: int where "RcodeNameError = 3"

text \<open>
  \<^verbatim>\<open>dns.Fqdn\<close>: the name itself when it ends in a dot, the name with a dot added
  otherwise.
\<close>

definition IsFqdn :: "string \<Rightarrow> bool" where
  "IsFqdn s = (case rev s of [] \<Rightarrow> False | ch # _ \<Rightarrow> ch = CHR ''.'')"

definition Fqdn :: "string \<Rightarrow> string" where
  "Fqdn s = (if IsFqdn s then s else s @ ''.'')"

text \<open>
  \<^verbatim>\<open>m.SetReply(req)\<close>: a fresh response carrying the request's id, its recursion bit
  and its first question (none when the request has none).
\<close>

definition SetReply :: "Msg \<Rightarrow> Msg" where
  "SetReply request =
     \<lparr>Id = Id request, Response = True, Authoritative = False,
      RecursionDesired = RecursionDesired request, Rcode = RcodeSuccess,
      Question = take 1 (Question request), Answer = [], Extra = []\<rparr>"

subsection \<open>The program's own types\<close>


record zone =
  name :: string
  rrs :: "RR list"

record config =
  prefix :: string
  resolver :: string
  lastUpdate :: int

text \<open>
  What a handler leaves behind: the message it wrote, nothing (it returned without
  writing), or a panic of its goroutine.
\<close>

datatype reply = Wrote Msg | NoReply | Panicked

datatype log_line =
    WarnQuestionCount
  | WarnClass "16 word"
  | FlattenError error

text \<open>
  The observable steps of a handler besides its reply: a line given to \<^verbatim>\<open>log.Printf\<close>,
  and an exchange with the resolver (the question sent, the resolver's address).
\<close>

datatype event = LogPrintf log_line | Exchange Question string

text \<open>
  The resolver and the network between: what \<^verbatim>\<open>d.Exchange(m, c.resolver)\<close> returns for
  a question sent to an address, the response (\<open>None\<close> is the nil pointer) and the error.
\<close>

type_synonym upstream = "Question \<Rightarrow> string \<Rightarrow> Msg option \<times> error option"

datatype 'a exec = Done 'a | Panic

subsection \<open>flattenCNAME\<close>

text \<open>The loop over \<^verbatim>\<open>record.Answer\<close>: one synthesized record per \<^verbatim>\<open>*dns.A\<close> value.\<close>

fun flattenAnswers :: "RR_Header \<Rightarrow> RR list \<Rightarrow> RR list \<Rightarrow> RR list" where
  "flattenAnswers h [] answers = answers"
| "flattenAnswers h (A hdr addr # rest) answers =
     flattenAnswers h rest
       (answers @ [A \<lparr>Name = Name h, Rrtype = TypeA, Class = ClassINET, Ttl = 300\<rparr> addr])"
| "flattenAnswers h (a # rest) answers = flattenAnswers h rest answers"

text \<open>
  \<^verbatim>\<open>flattenCNAME(in *dns.CNAME)\<close> takes the record as its header and its target. The
  result is the pair the Go function returns (a nil slice is \<open>None\<close>), or a panic.
  When the exchange gave no error and the response is nil or carries another code than
  success, the function means to return an error built by
  \<^verbatim>\<open>fmt.Errorf("...", record.Rcode, err.Error())\<close>; the arguments are evaluated first, and
  \<^verbatim>\<open>err\<close> is nil there (and \<^verbatim>\<open>record\<close> may be), so the call panics before anything is
  returned.
\<close>

definition flattenCNAME ::
  "config \<Rightarrow> upstream \<Rightarrow> RR_Header \<Rightarrow> string
    \<Rightarrow> event list \<times> (RR list option \<times> error option) exec" where
  "flattenCNAME c up h Target =
     (let m = \<lparr>Q_Name = Target, Qtype = TypeA, Qclass = ClassINET\<rparr>;
          sent = [Exchange m (resolver c)]
      in case up m (resolver c) of
           (record, Some err) \<Rightarrow> (sent, Done (None, Some err))
         | (None, None) \<Rightarrow> (sent, Panic)
         | (Some record, None) \<Rightarrow>
             if Rcode record = RcodeNameError \<or> Rcode record \<noteq> RcodeSuccess
             then (sent, Panic)
             else (sent, Done (Some (flattenAnswers h (Answer record) []), None)))"

subsection \<open>zoneHandler\<close>

text \<open>
  The loop over \<^verbatim>\<open>z.rrs\<close>, with \<^verbatim>\<open>m.Answer\<close> and the events so far as its state. The
  result is the events and the final answer section, \<open>None\<close> when the loop panicked:
  on \<^verbatim>\<open>record.(*dns.CNAME)\<close> for a value of another type, inside \<^verbatim>\<open>flattenCNAME\<close>, or
  on \<^verbatim>\<open>err.Error()\<close> for a nil error beside a nil slice.
\<close>

fun zoneLoop ::
  "config \<Rightarrow> upstream \<Rightarrow> zone \<Rightarrow> Question \<Rightarrow> RR list \<Rightarrow> RR list \<times> event list
    \<Rightarrow> event list \<times> RR list option" where
  "zoneLoop c up z q [] (answer, evs) = (evs, Some answer)"
| "zoneLoop c up z q (record # rest) (answer, evs) =
     (let h = Header record in
      if Q_Name q \<noteq> Name h then zoneLoop c up z q rest (answer, evs)
      else if Qtype q = TypeA \<and> Rrtype h = TypeCNAME then
        (if Q_Name q = Fqdn (name z) then
           (case record of
              CNAME hdr Target \<Rightarrow>
                (case flattenCNAME c up hdr Target of
                   (sent, Panic) \<Rightarrow> (evs @ sent, None)
                 | (sent, Done (flat, Some err)) \<Rightarrow>
                     zoneLoop c up z q rest (answer, evs @ sent @ [LogPrintf (FlattenError err)])
                 | (sent, Done (None, None)) \<Rightarrow> (evs @ sent, None)
                 | (sent, Done (Some flat, None)) \<Rightarrow>
                     zoneLoop c up z q rest (answer @ flat, evs @ sent))
            | _ \<Rightarrow> (evs, None))
         else zoneLoop c up z q rest (answer @ [record], evs))
      else if Qtype q \<noteq> Rrtype h \<and> Qtype q \<noteq> TypeANY then
        zoneLoop c up z q rest (answer, evs)
      else zoneLoop c up z q rest (answer @ [record], evs))"

definition zoneHandler :: "zone \<Rightarrow> config \<Rightarrow> upstream \<Rightarrow> Msg \<Rightarrow> event list \<times> reply" where
  "zoneHandler z c up req =
     (let m = (SetReply req)\<lparr>Authoritative := True, Answer := []\<rparr> in
      case Question req of
        [q] \<Rightarrow>
          if Qclass q \<noteq> ClassINET then ([LogPrintf (WarnClass (Qclass q))], NoReply)
          else (case zoneLoop c up z q (rrs z) (Answer m, []) of
                  (evs, None) \<Rightarrow> (evs, Panicked)
                | (evs, Some answer) \<Rightarrow> (evs, Wrote (m\<lparr>Answer := answer\<rparr>)))
      | _ \<Rightarrow> ([LogPrintf WarnQuestionCount], NoReply))"

subsection \<open>registerVersionHandler\<close>


subsection \<open>The object store and getZones\<close>

definition Minute :: int where
  "Minute = 60 * 1000000000"

definition Add :: "int \<Rightarrow> int \<Rightarrow> int" where
  "Add t d = t + d"

definition Before :: "int \<Rightarrow> int \<Rightarrow> bool" where
  "Before t u = (t < u)"

text \<open>\<^verbatim>\<open>strings.TrimPrefix\<close>.\<close>

definition TrimPrefix :: "string \<Rightarrow> string \<Rightarrow> string" where
  "TrimPrefix s p = (if take (length p) s = p then drop (length p) s else s)"

record zoneFile =
  Key :: string
  LastModified :: int

text \<open>
  The interface \<^verbatim>\<open>zoneGetter\<close>. \<open>ListZones\<close> is what the one call of a cycle returns.
  \<open>GetZone\<close> gives, for a key, the error of the call (\<open>Inl\<close>) or the stream it returns,
  and the stream is what \<^verbatim>\<open>ioutil.ReadAll\<close> makes of it: an error or the content.
\<close>

record zoneGetter =
  ListZones :: "zoneFile list \<times> error option"
  GetZone :: "string \<Rightarrow> error + (error + string)"

text \<open>
  The loop of \<^verbatim>\<open>getZones\<close> over the listing. Its state is the map \<^verbatim>\<open>zones\<close> (a Go map:
  a list of entries with one entry per key, \<^verbatim>\<open>zones[k] = v\<close> is \<open>AList.update\<close>) and the
  keys given to \<open>GetZone\<close> so far. An error ends the loop with the map as it is.
\<close>

fun getZonesLoop ::
  "config \<Rightarrow> zoneGetter \<Rightarrow> zoneFile list \<Rightarrow> (string \<times> string) list \<times> string list
    \<Rightarrow> ((string \<times> string) list \<times> string list) \<times> error option" where
  "getZonesLoop c getter [] (zones, fetched) = ((zones, fetched), None)"
| "getZonesLoop c getter (k # ks) (zones, fetched) =
     (if Key k = prefix c then getZonesLoop c getter ks (zones, fetched)
      else if Before (LastModified k) (Add (lastUpdate c) (- 1 * Minute))
      then getZonesLoop c getter ks (zones, fetched)
      else (case GetZone getter (Key k) of
              Inl err \<Rightarrow> ((zones, fetched @ [Key k]), Some err)
            | Inr zoneData \<Rightarrow>
                (case zoneData of
                   Inl err \<Rightarrow> ((zones, fetched @ [Key k]), Some err)
                 | Inr b \<Rightarrow>
                     getZonesLoop c getter ks
                       (AList.update (TrimPrefix (Key k) (prefix c)) b zones,
                        fetched @ [Key k]))))"

text \<open>
  \<^verbatim>\<open>getZones\<close> returns the map and the error; the model adds the configuration after
  the call (\<^verbatim>\<open>c.lastUpdate\<close> is set to \<^verbatim>\<open>time.Now()\<close>, here \<open>now\<close>, on success only)
  and the keys that were fetched, in order.
\<close>

definition getZones ::
  "config \<Rightarrow> zoneGetter \<Rightarrow> int
    \<Rightarrow> ((string \<times> string) list \<times> error option) \<times> config \<times> string list" where
  "getZones c getter now =
     (case ListZones getter of
        (resp, Some err) \<Rightarrow> (([], Some err), c, [])
      | (resp, None) \<Rightarrow>
          (case getZonesLoop c getter resp ([], []) of
             ((zones, fetched), Some err) \<Rightarrow> ((zones, Some err), c, fetched)
           | ((zones, fetched), None) \<Rightarrow>
               ((zones, None), c\<lparr>lastUpdate := now\<rparr>, fetched)))"

text \<open>
  \<^verbatim>\<open>s3getter\<close>: the getter of \<^verbatim>\<open>main\<close>. \<open>ListObjects\<close> is the store's answer to the
  listing (its \<^verbatim>\<open>Contents\<close>, \<open>None\<close> for nil, and the error), \<open>GetObject\<close> its answer
  for a key.
\<close>

record Object =
  O_Key :: string
  O_LastModified :: int

record s3 =
  ListObjects :: "Object list option \<times> error option"
  GetObject :: "string \<Rightarrow> error + (error + string)"

definition s3_ListZones :: "s3 \<Rightarrow> zoneFile list \<times> error option" where
  "s3_ListZones s =
     (case ListObjects s of
        (Contents, Some err) \<Rightarrow> ([], Some err)
      | (None, None) \<Rightarrow> ([], Some ''Zone directory empty'')
      | (Some Contents, None) \<Rightarrow>
          if length Contents < 1 then ([], Some ''No zones found'')
          else (map (\<lambda>k. \<lparr>Key = O_Key k, LastModified = O_LastModified k\<rparr>) Contents, None))"

definition s3getter :: "s3 \<Rightarrow> zoneGetter" where
  "s3getter s = \<lparr>ListZones = s3_ListZones s, GetZone = GetObject s\<rparr>"

subsection \<open>loadZones and the handler registry\<close>

text \<open>
  \<^verbatim>\<open>dns.ParseZone(r, origin, file)\<close> is a parameter: the tokens it sends for a text,
  each a record or an error.
\<close>

datatype Token = TokenRR RR | TokenError error

type_synonym parser = "string \<Rightarrow> string \<Rightarrow> string \<Rightarrow> Token list"

text \<open>
  The registry of \<^verbatim>\<open>dns.HandleFunc\<close>, by pattern. A handler of \<^verbatim>\<open>loadZones\<close> is a
  closure over the zone value it was built from. Registering a pattern again replaces
  its handler.
\<close>

datatype handler = ZoneHandler zone | VersionHandler

type_synonym mux = "string \<rightharpoonup> handler"

definition HandleFunc :: "string \<Rightarrow> handler \<Rightarrow> mux \<Rightarrow> mux" where
  "HandleFunc pattern h m = m(pattern \<mapsto> h)"

datatype process = Running | Fatal error

text \<open>The inner loop of \<^verbatim>\<open>loadZones\<close>: \<open>Inl\<close> is the error that \<^verbatim>\<open>log.Fatalf\<close> reports.\<close>

fun zoneTokens :: "Token list \<Rightarrow> zone \<Rightarrow> error + zone" where
  "zoneTokens [] z = Inr z"
| "zoneTokens (TokenError e # ts) z = Inl e"
| "zoneTokens (TokenRR rr # ts) z = zoneTokens ts (z\<lparr>rrs := rrs z @ [rr]\<rparr>)"

text \<open>
  \<^verbatim>\<open>loadZones\<close> over the entries of the map, in the order the \<^verbatim>\<open>range\<close> visits them.
  The result is the registry and the state of the process: \<open>Running\<close> when the function
  returned (its error is always nil), \<open>Fatal\<close> when \<^verbatim>\<open>log.Fatalf\<close> ended the process,
  with the registry as it was at that moment.
\<close>

fun loadZones :: "parser \<Rightarrow> (string \<times> string) list \<Rightarrow> mux \<Rightarrow> mux \<times> process" where
  "loadZones P [] m = (m, Running)"
| "loadZones P ((n, f) # rest) m =
     (case zoneTokens (P f n n) \<lparr>name = n, rrs = []\<rparr> of
        Inl e \<Rightarrow> (m, Fatal (''Error parsing zone '' @ n @ '': '' @ e))
      | Inr z \<Rightarrow> loadZones P rest (HandleFunc n (ZoneHandler z) m))"

subsection \<open>main: the start and the update cycle\<close>

text \<open>
  Go visits the entries of a map in an order of its choosing; \<open>visit\<close> is that order,
  a rearrangement of the entries. \<open>main_start\<close> is \<^verbatim>\<open>main\<close> from the first
  \<^verbatim>\<open>getZones\<close> to \<^verbatim>\<open>startServer\<close>: the process is \<open>Running\<close> when the server
  was started, and the registry is the one it serves from.
\<close>

definition main_start ::
  "config \<Rightarrow> s3 \<Rightarrow> int \<Rightarrow> ((string \<times> string) list \<Rightarrow> (string \<times> string) list) \<Rightarrow> parser
    \<Rightarrow> mux \<times> config \<times> process" where
  "main_start c s now visit P =
     (case getZones c (s3getter s) now of
        ((z, Some err), c', fetched) \<Rightarrow> (Map.empty, c', Fatal err)
      | ((z, None), c', fetched) \<Rightarrow>
          (case loadZones P (visit z) Map.empty of
             (m, Fatal e) \<Rightarrow> (m, c', Fatal e)
           | (m, Running) \<Rightarrow> (HandleFunc ''.'' VersionHandler m, c', Running)))"

text \<open>One turn of the update loop of \<^verbatim>\<open>main\<close>, after the signal or the timeout.\<close>

definition updateCycle ::
  "config \<Rightarrow> zoneGetter \<Rightarrow> int \<Rightarrow> ((string \<times> string) list \<Rightarrow> (string \<times> string) list)
    \<Rightarrow> parser \<Rightarrow> mux \<Rightarrow> mux \<times> config \<times> process" where
  "updateCycle c getter now visit P m =
     (case getZones c getter now of
        ((z, Some err), c', fetched) \<Rightarrow> (m, c', Fatal err)
      | ((z, None), c', fetched) \<Rightarrow>
          if length z > 0 then
            (case loadZones P (visit z) m of (m', p) \<Rightarrow> (m', c', p))
          else (m, c', Running))"

subsection \<open>Descriptions used in the statements\<close>

text \<open>
  What flattening contributes for one record of the zone: the records \<open>flattenCNAME\<close>
  returns for a \<^verbatim>\<open>*dns.CNAME\<close> value (none when it returns an error), and the events of
  that call, with the line logged for an error.
\<close>

definition flattened :: "config \<Rightarrow> upstream \<Rightarrow> RR \<Rightarrow> RR list" where
  "flattened c up r =
     (case r of
        CNAME h t \<Rightarrow> (case snd (flattenCNAME c up h t) of Done (Some flat, None) \<Rightarrow> flat | _ \<Rightarrow> [])
      | _ \<Rightarrow> [])"

definition flattenEvents :: "config \<Rightarrow> upstream \<Rightarrow> RR \<Rightarrow> event list" where
  "flattenEvents c up r =
     (case r of
        CNAME h t \<Rightarrow>
          fst (flattenCNAME c up h t) @
          (case snd (flattenCNAME c up h t) of
             Done (flat, Some err) \<Rightarrow> [LogPrintf (FlattenError err)]
           | _ \<Rightarrow> [])
      | _ \<Rightarrow> [])"

subsection \<open>The zones and the resolver of the test file\<close>

text \<open>
  \<^verbatim>\<open>neddns_test.go\<close> serves three zone texts and uses the server itself as the resolver,
  which answers \<^verbatim>\<open>def.com.\<close> with 127.0.0.2. The zones below are those texts as records;
  \<open>query\<close> is a request with one question of class INET.
\<close>

definition test_config :: config where
  "test_config = \<lparr>prefix = '''', resolver = ''127.0.0.1:25353'', lastUpdate = 0\<rparr>"

definition query :: "string \<Rightarrow> 16 word \<Rightarrow> Msg" where
  "query n t =
     \<lparr>Id = 0, Response = False, Authoritative = False, RecursionDesired = True,
      Rcode = 0, Question = [\<lparr>Q_Name = n, Qtype = t, Qclass = ClassINET\<rparr>],
      Answer = [], Extra = []\<rparr>"

definition mk_hdr :: "string \<Rightarrow> 16 word \<Rightarrow> 32 word \<Rightarrow> RR_Header" where
  "mk_hdr n t ttl = \<lparr>Name = n, Rrtype = t, Class = ClassINET, Ttl = ttl\<rparr>"

definition abc_zone :: zone where
  "abc_zone = \<lparr>name = ''abc.com'', rrs =
     [RR_other (mk_hdr ''abc.com.'' 6 86400)
        ''nsa.abc.com. admin.abc.com. 2014121700 10800 1200 864000 7200'',
      RR_other (mk_hdr ''abc.com.'' 2 300) ''nsa.abc.com.'',
      RR_other (mk_hdr ''abc.com.'' 2 300) ''nsb.abc.com.'',
      RR_other (mk_hdr ''abc.com.'' 15 300) ''10 mail.abc.com.'',
      A (mk_hdr ''abc.com.'' TypeA 300) [127, 0, 0, 1],
      CNAME (mk_hdr ''www.abc.com.'' TypeCNAME 300) ''abc.com.'']\<rparr>"

definition flat_zone :: zone where
  "flat_zone = \<lparr>name = ''flat.com'', rrs =
     [RR_other (mk_hdr ''flat.com.'' 6 86400)
        ''nsa.flat.com. admin.flat.com. 2014121700 10800 1200 864000 7200'',
      RR_other (mk_hdr ''flat.com.'' 2 300) ''nsa.flat.com.'',
      RR_other (mk_hdr ''flat.com.'' 2 300) ''nsb.flat.com.'',
      RR_other (mk_hdr ''flat.com.'' 15 300) ''10 mail.flat.com.'',
      CNAME (mk_hdr ''flat.com.'' TypeCNAME 300) ''def.com.'',
      CNAME (mk_hdr ''www.flat.com.'' TypeCNAME 300) ''flat.com.'']\<rparr>"

definition test_upstream :: upstream where
  "test_upstream q addr =
     (if Q_Name q = ''def.com.'' \<and> Qtype q = TypeA then
        (Some \<lparr>Id = 0, Response = True, Authoritative = True, RecursionDesired = True,
               Rcode = RcodeSuccess, Question = [q],
               Answer = [A (mk_hdr ''def.com.'' TypeA 300) [127, 0, 0, 2]], Extra = []\<rparr>, None)
      else (None, Some ''i/o timeout''))"

text \<open>A resolver that answers every question with the code SERVFAIL and no records.\<close>

definition servfail_upstream :: upstream where
  "servfail_upstream q addr =
     (Some \<lparr>Id = 0, Response = True, Authoritative = False, RecursionDesired = True,
            Rcode = 2, Question = [q], Answer = [], Extra = []\<rparr>, None)"

section \<open>Properties\<close>

lemmas fixtures = test_config_def query_def mk_hdr_def abc_zone_def flat_zone_def
  test_upstream_def servfail_upstream_def
  TypeA_def TypeCNAME_def TypeTXT_def TypeANY_def ClassINET_def RcodeSuccess_def
  RcodeNameError_def Fqdn_def IsFqdn_def SetReply_def

lemma types_distinct [simp]:
  "TypeA \<noteq> TypeCNAME" "TypeCNAME \<noteq> TypeA" "TypeCNAME \<noteq> TypeANY" "TypeA \<noteq> TypeANY"
  by (simp_all add: TypeA_def TypeCNAME_def TypeANY_def)

subsection \<open>The flattener\<close>

lemma flattenAnswers_acc:
  "flattenAnswers h as answers =
     answers @ concat (map (\<lambda>a. case a of
        A hdr addr \<Rightarrow> [A \<lparr>Name = Name h, Rrtype = TypeA, Class = ClassINET, Ttl = 300\<rparr> addr]
      | _ \<Rightarrow> []) as)"
  by (induction h as answers rule: flattenAnswers.induct) simp_all

lemma flattenCNAME_shape:
  "flattenCNAME c up h t = (sent, res) \<Longrightarrow>
     sent = [Exchange \<lparr>Q_Name = t, Qtype = TypeA, Qclass = ClassINET\<rparr> (resolver c)] \<and>
     (res = Panic \<or> (\<exists>e. res = Done (None, Some e)) \<or> (\<exists>flat. res = Done (Some flat, None)))"
  by (auto simp: flattenCNAME_def Let_def split: prod.splits option.splits if_splits)

lemma flattened_CNAME:
  "flattened c up (CNAME h t) =
     (case snd (flattenCNAME c up h t) of Done (Some flat, None) \<Rightarrow> flat | _ \<Rightarrow> [])"
  by (simp add: flattened_def)

lemma flattenEvents_CNAME:
  "flattenEvents c up (CNAME h t) =
     fst (flattenCNAME c up h t) @
     (case snd (flattenCNAME c up h t) of
        Done (flat, Some err) \<Rightarrow> [LogPrintf (FlattenError err)]
      | _ \<Rightarrow> [])"
  by (simp add: flattenEvents_def)

text \<open>
  C7. When the exchange succeeds (no error, response code success), \<open>flattenCNAME\<close>
  returns, in the order of the upstream answer, one record per \<^verbatim>\<open>*dns.A\<close> value of that
  answer: its name is the name of the CNAME record that was flattened, its type A, its
  class INET, its TTL 300, its address the upstream record's address. Nothing else of the
  upstream record is kept, and an upstream record of another type gives nothing.
\<close>

theorem C7_flattenCNAME_synthesizes:
  assumes "up \<lparr>Q_Name = t, Qtype = TypeA, Qclass = ClassINET\<rparr> (resolver c) = (Some r, None)"
    and "Rcode r = RcodeSuccess"
  shows "flattenCNAME c up h t =
     ([Exchange \<lparr>Q_Name = t, Qtype = TypeA, Qclass = ClassINET\<rparr> (resolver c)],
      Done (Some (concat (map (\<lambda>a. case a of
          A hdr addr \<Rightarrow> [A \<lparr>Name = Name h, Rrtype = TypeA, Class = ClassINET, Ttl = 300\<rparr> addr]
        | _ \<Rightarrow> []) (Answer r))), None))"
  using assms by (simp add: flattenCNAME_def flattenAnswers_acc RcodeSuccess_def RcodeNameError_def)

theorem C7_flattenCNAME_synthesizes_witness:
  "flattenCNAME test_config test_upstream (mk_hdr ''flat.com.'' TypeCNAME 300) ''def.com.'' =
     ([Exchange \<lparr>Q_Name = ''def.com.'', Qtype = TypeA, Qclass = ClassINET\<rparr> ''127.0.0.1:25353''],
      Done (Some [A \<lparr>Name = ''flat.com.'', Rrtype = TypeA, Class = ClassINET, Ttl = 300\<rparr>
                    [127, 0, 0, 2]], None))"
  using C7_flattenCNAME_synthesizes [of test_upstream "''def.com.''" test_config
      "\<lparr>Id = 0, Response = True, Authoritative = True, RecursionDesired = True,
        Rcode = RcodeSuccess,
        Question = [\<lparr>Q_Name = ''def.com.'', Qtype = TypeA, Qclass = ClassINET\<rparr>],
        Answer = [A (mk_hdr ''def.com.'' TypeA 300) [127, 0, 0, 2]], Extra = []\<rparr>"
      "mk_hdr ''flat.com.'' TypeCNAME 300"]
  by (simp add: test_upstream_def test_config_def mk_hdr_def)

text \<open>
  C6. The flattener is meant to fail with an error when the upstream answers with another
  response code than success. It does not get that far: with no error from the exchange
  and a response whose code is not success, \<open>flattenCNAME\<close> panics while it builds the
  error (it calls \<^verbatim>\<open>err.Error()\<close> on the nil error), so no error is returned and nothing
  is logged.
\<close>

theorem C6_flattenCNAME_panics_on_rcode:
  assumes "up \<lparr>Q_Name = t, Qtype = TypeA, Qclass = ClassINET\<rparr> (resolver c) = (Some r, None)"
    and "Rcode r \<noteq> RcodeSuccess"
  shows "snd (flattenCNAME c up h t) = Panic"
  using assms by (simp add: flattenCNAME_def)

theorem C6_flattenCNAME_panics_on_rcode_witness:
  "snd (flattenCNAME test_config servfail_upstream (mk_hdr ''flat.com.'' TypeCNAME 300) ''def.com.'')
     = Panic"
  using C6_flattenCNAME_panics_on_rcode [of servfail_upstream "''def.com.''" test_config
      "\<lparr>Id = 0, Response = True, Authoritative = False, RecursionDesired = True,
        Rcode = 2, Question = [\<lparr>Q_Name = ''def.com.'', Qtype = TypeA, Qclass = ClassINET\<rparr>],
        Answer = [], Extra = []\<rparr>"
      "mk_hdr ''flat.com.'' TypeCNAME 300"]
  by (simp add: servfail_upstream_def RcodeSuccess_def)

subsection \<open>The version handler\<close>



end
